theory Spec2Isabelle
  imports Main "HOL-Library.Multiset"
begin

section \<open>Python string primitives used by \<open>job_site.py\<close>\<close>

text \<open>
  Strings are \<open>char list\<close>; one list element stands for one character of the Python
  \<open>str\<close>, so \<open>length\<close> is Python's \<open>len\<close>.
\<close>

datatype py_error = AttributeError | IndexError | ValueError | FileExistsError

definition lower_char :: "char \<Rightarrow> char" where
  \<comment> \<open>\<open>str.lower\<close> on one character: the letters A..Z are mapped, the rest is kept.\<close>
  "lower_char c =
     (case map_of (zip ''ABCDEFGHIJKLMNOPQRSTUVWXYZ'' ''abcdefghijklmnopqrstuvwxyz'') c of
        Some d \<Rightarrow> d
      | None \<Rightarrow> c)"

definition str_lower :: "string \<Rightarrow> string" where
  "str_lower s = map lower_char s"

fun str_in :: "string \<Rightarrow> string \<Rightarrow> bool" where
  \<comment> \<open>\<open>sub in s\<close>: \<open>sub\<close> occurs in \<open>s\<close> as a contiguous substring.\<close>
  "str_in sub [] = (sub = [])"
| "str_in sub (c # cs) = (take (length sub) (c # cs) = sub \<or> str_in sub cs)"

fun split_char :: "char \<Rightarrow> string \<Rightarrow> string list" where
  \<comment> \<open>\<open>s.split(sep)\<close> for a one-character separator: every occurrence splits, empty
      pieces are kept, and the empty string gives one empty piece.\<close>
  "split_char sep [] = [[]]"
| "split_char sep (c # cs) =
     (if c = sep then [] # split_char sep cs
      else (case split_char sep cs of
              [] \<Rightarrow> [[c]]
            | w # ws \<Rightarrow> (c # w) # ws))"

function str_replace :: "string \<Rightarrow> string \<Rightarrow> string \<Rightarrow> string" where
  \<comment> \<open>\<open>s.replace(old, new)\<close>: the occurrences of \<open>old\<close> are replaced from the left,
      without overlap; an empty \<open>old\<close> matches before every character and at the end.\<close>
  "str_replace old new [] = (if old = [] then new else [])"
| "str_replace old new (c # cs) =
     (if old = [] then new @ c # str_replace old new cs
      else if take (length old) (c # cs) = old
           then new @ str_replace old new (drop (length old) (c # cs))
           else c # str_replace old new cs)"
  by pat_completeness auto
termination
  by (relation "measure (\<lambda>(old, new, s). length s)") auto

definition rstrip_char :: "char \<Rightarrow> string \<Rightarrow> string" where
  \<comment> \<open>\<open>s.rstrip(c)\<close> for a one-character argument.\<close>
  "rstrip_char c s = rev (dropWhile (\<lambda>x. x = c) (rev s))"

definition py_whitespace :: "char list" where
  \<comment> \<open>The characters below 256 for which \<open>str.isspace\<close> holds.\<close>
  "py_whitespace =
     [CHR 0x09, CHR 0x0A, CHR 0x0B, CHR 0x0C, CHR 0x0D, CHR 0x1C, CHR 0x1D, CHR 0x1E,
      CHR 0x1F, CHR 0x20, CHR 0x85, CHR 0xA0]"

definition str_strip :: "string \<Rightarrow> string" where
  \<comment> \<open>\<open>s.strip()\<close>: leading and trailing whitespace removed.\<close>
  "str_strip s =
     rev (dropWhile (\<lambda>x. x \<in> set py_whitespace)
            (rev (dropWhile (\<lambda>x. x \<in> set py_whitespace) s)))"

definition py_index :: "'a list \<Rightarrow> int \<Rightarrow> py_error + 'a" where
  \<comment> \<open>\<open>xs[i]\<close>: a negative index counts from the end, an index out of range raises.\<close>
  "py_index xs i =
     (let n = int (length xs); k = (if i < 0 then i + n else i)
      in if 0 \<le> k \<and> k < n then Inr (xs ! nat k) else Inl IndexError)"

section \<open>Link processor: \<open>Lever._validate_link\<close> and \<open>Lever._process_links\<close>\<close>

record link_record =
  link_desc :: "string option"
  link_apply :: "string option"

definition lever_url :: string where
  \<comment> \<open>\<open>Lever.__init__\<close>: \<open>super().__init__(name='lever', url='lever.co')\<close>.\<close>
  "lever_url = ''lever.co''"

definition validate_link :: "string \<Rightarrow> string \<Rightarrow> bool" where
  \<comment> \<open>The first argument is \<open>self.url\<close>.\<close>
  "validate_link url link =
     (if link \<noteq> [] then
        if length link > length url then
          if str_in url (take (length url) link) then
            if \<not> str_in ''/?q='' link then
              if length (split_char CHR ''/''
                           (str_replace ''https://jobs.lever.co/'' [] link)) > 1
              then True else False
            else False
          else False
        else False
      else False)"

definition last_segment_is_apply :: "string \<Rightarrow> bool" where
  \<comment> \<open>The negation of \<open>iLink.split('/')[-1].lower() != 'apply'\<close>.\<close>
  "last_segment_is_apply link =
     (map_sum id str_lower (py_index (split_char CHR ''/'' link) (- 1)) = Inr ''apply'')"

definition process_link :: "string \<Rightarrow> link_record" where
  \<comment> \<open>The body of the loop of \<open>_process_links\<close> for a link that passed validation
      (so \<open>iLink[-1]\<close> exists).\<close>
  "process_link iLink =
     (if \<not> last_segment_is_apply iLink then
        \<lparr>link_desc = Some iLink,
         link_apply = Some ((if last iLink \<noteq> CHR ''/'' then iLink @ ''/'' else iLink) @ ''apply'')\<rparr>
      else
        \<lparr>link_desc = Some (str_replace ''apply'' [] iLink),
         link_apply = Some iLink\<rparr>)"

fun process_links :: "string \<Rightarrow> string list \<Rightarrow> link_record list" where
  "process_links url [] = []"
| "process_links url (iLink # links) =
     (if validate_link url iLink
      then process_link iLink # process_links url links
      else process_links url links)"

section \<open>Location classifier: \<open>Lever._validate_location_in_usa\<close>\<close>

definition check_if_exists_in_array :: "string \<Rightarrow> string list \<Rightarrow> bool" where
  \<comment> \<open>\<open>bool(np.where(array == value_to_check)[0].size)\<close>: some entry equals the value.\<close>
  "check_if_exists_in_array value_to_check array =
     (length (filter (\<lambda>x. x = value_to_check) array) \<noteq> 0)"

fun validate_location_in_usa ::
  "string list \<Rightarrow> string list \<Rightarrow> string list \<Rightarrow> string list \<Rightarrow> string list \<Rightarrow> string list
     \<Rightarrow> bool option" where
  \<comment> \<open>Arguments in the source's order: locations, us_states_full, us_states_abbreviated,
      us_cities, non_us_cities, foreign_countries. \<open>None\<close> is Python's \<open>None\<close>.\<close>
  "validate_location_in_usa [] us_states_full us_states_abbreviated us_cities non_us_cities
     foreign_countries = None"
| "validate_location_in_usa (iLocation # locations) us_states_full us_states_abbreviated
     us_cities non_us_cities foreign_countries =
     (if length iLocation = 2 \<and> check_if_exists_in_array iLocation us_states_abbreviated
      then Some True
      else if check_if_exists_in_array iLocation foreign_countries then Some False
      else if check_if_exists_in_array iLocation us_states_full then Some True
      else if check_if_exists_in_array iLocation us_cities then Some True
      else if check_if_exists_in_array iLocation non_us_cities then Some False
      else validate_location_in_usa locations us_states_full us_states_abbreviated
             us_cities non_us_cities foreign_countries)"

section \<open>Posting parser: \<open>_LeverJob\<close>\<close>

text \<open>
  A fetched page is represented by what the parser's queries on it return: the text of
  the \<open>title\<close> tag and of the \<open>div\<close>s of the classes \<open>location\<close>,
  \<open>department\<close>, \<open>commitment\<close> and \<open>workplaceTypes\<close> (\<open>None\<close> when
  \<open>find\<close> finds nothing), for every \<open>div\<close> of class \<open>section page-centered\<close> the
  texts of its \<open>li\<close> items, and the text of the sections tagged \<open>salary-range\<close>
  and \<open>closing-description\<close>.
\<close>

record page =
  title_tag :: "string option"
  location_div :: "string option"
  department_div :: "string option"
  commitment_div :: "string option"
  workplaceTypes_div :: "string option"
  sections :: "string list list"
  salary_range_div :: "string option"
  closing_description_div :: "string option"

record lever_job =
  job_page_source :: page
  location :: "string option"
  company :: "string option"
  title :: "string option"
  team :: "string option"
  hours :: "string option"
  wfh :: "string option"
  min_salary :: "nat option"
  max_salary :: "nat option"
  desc :: "string option"
  qual :: "string option"
  posting :: "string option"
  apply_link :: "string option"
  scraped :: string

record posting_record =
  rec_company :: "string option"
  rec_title :: "string option"
  rec_team :: "string option"
  rec_location :: "string option"
  rec_hours :: "string option"
  rec_wfh :: "string option"
  rec_min_salary :: "nat option"
  rec_max_salary :: "nat option"
  rec_desc :: "string option"
  rec_qual :: "string option"
  rec_posting :: "string option"
  rec_apply :: "string option"
  rec_scraped :: string
  rec_applied :: bool

definition init_lever_job :: "string \<Rightarrow> page \<Rightarrow> string option \<Rightarrow> string option \<Rightarrow> lever_job" where
  \<comment> \<open>\<open>_LeverJob.__init__\<close>; the first argument is the date string of
      \<open>datetime.today()\<close>.\<close>
  "init_lever_job today src description_link apply_lnk =
     \<lparr>job_page_source = src, location = None, company = None, title = None, team = None,
      hours = None, wfh = None, min_salary = None, max_salary = None, desc = None,
      qual = None, posting = description_link, apply_link = apply_lnk, scraped = today\<rparr>"

definition text_of :: "string option \<Rightarrow> py_error + string" where
  \<comment> \<open>\<open>find(...).text\<close>: \<open>None\<close> has no attribute \<open>text\<close>.\<close>
  "text_of found = (case found of None \<Rightarrow> Inl AttributeError | Some t \<Rightarrow> Inr t)"

definition parse_using_title_tag :: "lever_job \<Rightarrow> lever_job" where
  "parse_using_title_tag job =
     (case title_tag (job_page_source job) of
        None \<Rightarrow> job
      | Some header_text \<Rightarrow>
          (let job1 = (case py_index (split_char CHR ''-'' header_text) 0 of
                         Inr s \<Rightarrow> job\<lparr>company := Some (str_strip s)\<rparr>
                       | Inl e \<Rightarrow> job\<lparr>company := None\<rparr>);
               job2 = (case py_index (split_char CHR ''-'' header_text) (- 1) of
                         Inr s \<Rightarrow> job1\<lparr>title := Some (str_strip s)\<rparr>
                       | Inl e \<Rightarrow> job1\<lparr>title := None\<rparr>)
           in if str_in ''remote'' (str_lower header_text)
              then job2\<lparr>location := Some ''Remote''\<rparr>
              else job2))"

definition parse_location :: "lever_job \<Rightarrow> lever_job" where
  "parse_location job =
     (if location job = None then
        (case text_of (location_div (job_page_source job)) of
           Inr t \<Rightarrow> job\<lparr>location := Some (rstrip_char CHR ''/'' t)\<rparr>
         | Inl e \<Rightarrow> job\<lparr>location := None\<rparr>)
      else job)"

definition parse_team :: "lever_job \<Rightarrow> lever_job" where
  "parse_team job =
     (case text_of (department_div (job_page_source job)) of
        Inr t \<Rightarrow> job\<lparr>team := Some (rstrip_char CHR ''/'' t)\<rparr>
      | Inl e \<Rightarrow> job\<lparr>team := None\<rparr>)"

definition parse_hours :: "lever_job \<Rightarrow> lever_job" where
  "parse_hours job =
     (case text_of (commitment_div (job_page_source job)) of
        Inr t \<Rightarrow> job\<lparr>hours := Some (rstrip_char CHR ''/'' t)\<rparr>
      | Inl e \<Rightarrow> job\<lparr>hours := None\<rparr>)"

definition parse_wfh :: "lever_job \<Rightarrow> lever_job" where
  "parse_wfh job =
     (case text_of (workplaceTypes_div (job_page_source job)) of
        Inr t \<Rightarrow> job\<lparr>wfh := Some (rstrip_char CHR ''/'' t)\<rparr>
      | Inl e \<Rightarrow> job\<lparr>wfh := None\<rparr>)"

definition clean_item :: "string \<Rightarrow> string" where
  \<comment> \<open>\<open>j.replace('\\xa0', ' ').replace('[', '').replace(']', '')\<close>; the first pattern
      is the four characters backslash, x, a, 0.\<close>
  "clean_item j =
     str_replace '']'' [] (str_replace ''['' []
       (str_replace [CHR 0x5C, CHR ''x'', CHR ''a'', CHR ''0''] '' '' j))"

definition raw_string :: "string list \<Rightarrow> string list" where
  \<comment> \<open>The list comprehension: its condition \<open>len(j) > 3\<close> reads the item's text as
      extracted.\<close>
  "raw_string texts = map clean_item (filter (\<lambda>j. length j > 3) texts)"

fun join_cleaned :: "string \<Rightarrow> string list \<Rightarrow> string" where
  \<comment> \<open>The loop \<open>clean_string += iString.replace('"', '') + ' '\<close>.\<close>
  "join_cleaned clean_string [] = clean_string"
| "join_cleaned clean_string (iString # rest) =
     join_cleaned (clean_string @ str_replace [CHR 0x22] [] iString @ '' '') rest"

definition clean_desc_and_qual :: "string list \<Rightarrow> string" where
  "clean_desc_and_qual texts = join_cleaned [] (raw_string texts)"

definition parse_desc_and_qual :: "lever_job \<Rightarrow> lever_job" where
  "parse_desc_and_qual job =
     (let posting_info = sections (job_page_source job);
          job1 = (case py_index posting_info 1 of
                    Inr lis \<Rightarrow> job\<lparr>desc := Some (clean_desc_and_qual lis)\<rparr>
                  | Inl e \<Rightarrow> job\<lparr>desc := None\<rparr>)
      in (case py_index posting_info 2 of
            Inr lis \<Rightarrow> job1\<lparr>qual := Some (clean_desc_and_qual lis)\<rparr>
          | Inl e \<Rightarrow> job1\<lparr>qual := None\<rparr>))"

fun decimal_value :: "nat \<Rightarrow> string \<Rightarrow> nat option" where
  "decimal_value acc [] = Some acc"
| "decimal_value acc (c # cs) =
     (case map_of (zip ''0123456789'' [0, 1, 2, 3, 4, 5, 6, 7, 8, 9]) c of
        None \<Rightarrow> None
      | Some d \<Rightarrow> decimal_value (10 * acc + d) cs)"

definition py_float :: "string \<Rightarrow> py_error + nat" where
  \<comment> \<open>\<open>float(s)\<close> on plain decimal literals: surrounding whitespace is ignored, a
      non-empty run of digits is its value (exact as a float below \<open>2 ^ 53\<close>), the empty
      string and any other character raise \<open>ValueError\<close>. The further spellings
      \<open>float\<close> accepts (a sign, an exponent, digit-group underscores, \<open>inf\<close>,
      \<open>nan\<close>) are not modelled.\<close>
  "py_float s =
     (let t = str_strip s
      in if t = [] then Inl ValueError
         else (case decimal_value 0 t of None \<Rightarrow> Inl ValueError | Some n \<Rightarrow> Inr n))"

definition clean_token :: "string \<Rightarrow> string" where
  \<comment> \<open>\<open>i.replace(',', '').replace('$', '').replace('.', '').replace('-', '')\<close>.\<close>
  "clean_token i =
     str_replace ''-'' [] (str_replace ''.'' [] (str_replace ''$'' [] (str_replace '','' [] i)))"

fun floats_of :: "string list \<Rightarrow> py_error + nat list" where
  \<comment> \<open>The list comprehension over the kept tokens: the first \<open>float\<close> that raises ends
      it.\<close>
  "floats_of [] = Inr []"
| "floats_of (i # rest) =
     (case py_float (clean_token i) of
        Inl e \<Rightarrow> Inl e
      | Inr x \<Rightarrow> (case floats_of rest of Inl e \<Rightarrow> Inl e | Inr xs \<Rightarrow> Inr (x # xs)))"

definition money_tokens :: "string \<Rightarrow> string list" where
  \<comment> \<open>\<open>for i in money_string.text.split(' ') if '$' in i\<close>.\<close>
  "money_tokens text = filter (\<lambda>i. str_in ''$'' i) (split_char CHR '' '' text)"

definition clean_money_string :: "string \<Rightarrow> py_error + nat list" where
  "clean_money_string text = floats_of (money_tokens text)"

definition salary_text :: "page \<Rightarrow> string option" where
  \<comment> \<open>The section \<open>_parse_salary\<close> reads: the salary-range block, else the
      closing-description block.\<close>
  "salary_text src =
     (case salary_range_div src of
        Some t \<Rightarrow> Some t
      | None \<Rightarrow> closing_description_div src)"

definition parse_salary :: "lever_job \<Rightarrow> lever_job" where
  "parse_salary job =
     (let found = (case salary_text (job_page_source job) of
                     Some t \<Rightarrow> clean_money_string t
                   | None \<Rightarrow> Inr [])
      in case found of
           Inl e \<Rightarrow> job\<lparr>max_salary := None, min_salary := None\<rparr>
         | Inr salary \<Rightarrow>
             if length salary > 1 then
               (let sorted_salary = rev (sort salary)
                in case (py_index sorted_salary 0, py_index sorted_salary 1) of
                     (Inr hi, Inr lo) \<Rightarrow> job\<lparr>max_salary := Some hi, min_salary := Some lo\<rparr>
                   | _ \<Rightarrow> job\<lparr>max_salary := None, min_salary := None\<rparr>)
             else job)"

definition record_of_details :: "lever_job \<Rightarrow> posting_record" where
  "record_of_details job =
     \<lparr>rec_company = company job, rec_title = title job, rec_team = team job,
      rec_location = location job, rec_hours = hours job, rec_wfh = wfh job,
      rec_min_salary = min_salary job, rec_max_salary = max_salary job,
      rec_desc = desc job, rec_qual = qual job, rec_posting = posting job,
      rec_apply = apply_link job, rec_scraped = scraped job, rec_applied = False\<rparr>"

definition parse_all :: "lever_job \<Rightarrow> lever_job" where
  \<comment> \<open>The seven parsing calls of \<open>export_posting_info\<close>, in its order.\<close>
  "parse_all job =
     parse_salary (parse_desc_and_qual (parse_wfh (parse_hours (parse_team
       (parse_location (parse_using_title_tag job))))))"

definition export_posting_info :: "lever_job \<Rightarrow> posting_record" where
  "export_posting_info job = record_of_details (parse_all job)"

section \<open>Batch: \<open>Lever.save_job_info\<close>\<close>

record reference_tables =
  foreign_countries :: "string list"
  non_us_cities :: "string list"
  us_cities :: "string list"
  us_states_full :: "string list"
  us_states_abbreviated :: "string list"

text \<open>
  What \<open>save_job_info\<close> takes from outside the program: the page a description URL
  fetches (\<open>None\<close> when \<open>urlopen\<close> or the HTML parser raises), the five reference
  tables, the order in which Python iterates the \<open>set\<close> of location tokens, and the
  current date.
\<close>

record world =
  fetch :: "string \<Rightarrow> page option"
  tables :: reference_tables
  set_order :: "string list \<Rightarrow> string list"
  today :: string

definition get_job_desc_page_source :: "(string \<Rightarrow> page option) \<Rightarrow> link_record \<Rightarrow> page option" where
  \<comment> \<open>\<open>_BaseSite._get_job_desc_page_source\<close>: every exception gives \<open>None\<close>.\<close>
  "get_job_desc_page_source fetch_page job_info_dict =
     (case link_desc job_info_dict of None \<Rightarrow> None | Some u \<Rightarrow> fetch_page u)"

definition parse_location_info :: "(string list \<Rightarrow> string list) \<Rightarrow> page \<Rightarrow> string list option" where
  \<comment> \<open>\<open>Lever._parse_location_info\<close>; the first argument enumerates \<open>set(...)\<close>.\<close>
  "parse_location_info order page_source =
     (case text_of (location_div page_source) of
        Inl e \<Rightarrow> None
      | Inr t \<Rightarrow>
          Some (map str_lower
                  (filter (\<lambda>i. i \<noteq> [])
                     (order (split_char CHR '' '' (str_replace '','' [] t))))))"

definition is_usa :: "world \<Rightarrow> string list \<Rightarrow> bool option" where
  "is_usa w job_location =
     validate_location_in_usa job_location (us_states_full (tables w))
       (us_states_abbreviated (tables w)) (us_cities (tables w)) (non_us_cities (tables w))
       (foreign_countries (tables w))"

definition job_records :: "world \<Rightarrow> link_record \<Rightarrow> posting_record list" where
  \<comment> \<open>One pass of the loop of \<open>save_job_info\<close>: the records it appends to
      \<open>job_info\<close> for \<open>iJob\<close> (none or one).\<close>
  "job_records w iJob =
     (case get_job_desc_page_source (fetch w) iJob of
        None \<Rightarrow> []
      | Some page_source \<Rightarrow>
          (case parse_location_info (set_order w) page_source of
             None \<Rightarrow> []
           | Some job_location \<Rightarrow>
               if is_usa w job_location = Some True
               then [export_posting_info
                       (init_lever_job (today w) page_source (link_desc iJob)
                          (link_apply iJob))]
               else []))"

fun collect_job_info :: "world \<Rightarrow> posting_record list \<Rightarrow> link_record list \<Rightarrow> posting_record list" where
  \<comment> \<open>The loop; the second argument is \<open>job_info\<close> so far.\<close>
  "collect_job_info w job_info [] = job_info"
| "collect_job_info w job_info (iJob # jobs) =
     collect_job_info w (job_info @ job_records w iJob) jobs"

datatype csv_line = Header | Row posting_record

datatype write_mode = Exclusive | Append

type_synonym destination = "csv_line list option"

definition to_csv ::
  "posting_record list \<Rightarrow> write_mode \<Rightarrow> bool \<Rightarrow> destination \<Rightarrow> py_error + destination" where
  \<comment> \<open>\<open>DataFrame.to_csv(save_path, mode=..., header=...)\<close> on the file at
      \<open>save_path\<close>: \<open>None\<close> is a file that does not exist. Mode \<open>'x'\<close> creates
      the file and raises when it exists; mode \<open>'a'\<close> writes at the end.\<close>
  "to_csv job_info mode header dest =
     (let written = (if header then [Header] else []) @ map Row job_info
      in case mode of
           Exclusive \<Rightarrow>
             (case dest of None \<Rightarrow> Inr (Some written) | Some old \<Rightarrow> Inl FileExistsError)
         | Append \<Rightarrow>
             (case dest of None \<Rightarrow> Inr (Some written) | Some old \<Rightarrow> Inr (Some (old @ written))))"

definition write_job_info :: "posting_record list \<Rightarrow> destination \<Rightarrow> py_error + destination" where
  \<comment> \<open>Lines 193 to 207 of \<open>save_job_info\<close>.\<close>
  "write_job_info job_info dest =
     (if length job_info > 1 then
        (case to_csv job_info Exclusive True dest of
           Inr dest' \<Rightarrow> Inr dest'
         | Inl e \<Rightarrow> to_csv job_info Append False dest)
      else Inr dest)"

definition save_job_info :: "world \<Rightarrow> link_record list \<Rightarrow> destination \<Rightarrow> py_error + destination" where
  "save_job_info w jobs dest = write_job_info (collect_job_info w [] jobs) dest"

section \<open>Definitions that state the claims\<close>

definition spec_token_rule ::
  "string \<Rightarrow> string list \<Rightarrow> string list \<Rightarrow> string list \<Rightarrow> string list \<Rightarrow> string list
     \<Rightarrow> bool option" where
  \<comment> \<open>The per-token rule in the specification's words, rules (a) to (e); the tables in
      the order of \<open>validate_location_in_usa\<close>.\<close>
  "spec_token_rule t full abbreviated cities foreign_cities countries =
     (if length t = 2 \<and> t \<in> set abbreviated then Some True
      else if t \<in> set countries then Some False
      else if t \<in> set full then Some True
      else if t \<in> set cities then Some True
      else if t \<in> set foreign_cities then Some False
      else None)"

section \<open>Example inputs\<close>

definition demo_world :: world where
  "demo_world =
     \<lparr>fetch = (\<lambda>u. if u = ''lever.co/acme/1''
                     then Some \<lparr>title_tag = None, location_div = Some ''Berlin, Germany'',
                                department_div = None, commitment_div = None,
                                workplaceTypes_div = None, sections = [],
                                salary_range_div = None, closing_description_div = None\<rparr>
                     else None),
      tables = \<lparr>foreign_countries = [''germany''], non_us_cities = [''berlin''],
                us_cities = [''austin''], us_states_full = [''texas''],
                us_states_abbreviated = [''ca'', ''tx'']\<rparr>,
      set_order = remdups,
      today = ''11/04/2026''\<rparr>"

definition demo_posting :: "string \<Rightarrow> posting_record" where
  "demo_posting u =
     \<lparr>rec_company = None, rec_title = None, rec_team = None, rec_location = None,
      rec_hours = None, rec_wfh = None, rec_min_salary = None, rec_max_salary = None,
      rec_desc = None, rec_qual = None, rec_posting = Some u, rec_apply = None,
      rec_scraped = ''11/04/2026'', rec_applied = False\<rparr>"

definition section_text :: "string list list \<Rightarrow> nat \<Rightarrow> string option" where
  "section_text posting_info n =
     (if n < length posting_info then Some (clean_desc_and_qual (posting_info ! n)) else None)"

definition salary_pair :: "page \<Rightarrow> (nat \<times> nat) option" where
  "salary_pair src =
     (case salary_text src of
        None \<Rightarrow> None
      | Some t \<Rightarrow>
          (case clean_money_string t of
             Inl e \<Rightarrow> None
           | Inr salary \<Rightarrow>
               if 1 < length salary
               then Some (rev (sort salary) ! 0, rev (sort salary) ! 1)
               else None))"

definition title_location :: "page \<Rightarrow> string option" where
  "title_location src =
     (case title_tag src of
        None \<Rightarrow> None
      | Some t \<Rightarrow> if str_in ''remote'' (str_lower t) then Some ''Remote'' else None)"

definition demo_page :: page where
  "demo_page =
     \<lparr>title_tag = Some ''Acme - Data Scientist (Remote)'',
      location_div = Some ''Austin, TX /'',
      department_div = Some ''Engineering /'',
      commitment_div = None,
      workplaceTypes_div = Some ''Hybrid'',
      sections = [[''skip''], [''ab'', ''valid text'', ''[bracketed]'', ''x'']],
      salary_range_div = Some ''$120,000- $150,000'',
      closing_description_div = None\<rparr>"

definition fetch_demo :: "string \<Rightarrow> page option" where
  "fetch_demo u =
     (if u = ''lever.co/acme/2'' then Some demo_page
      else if u = ''lever.co/acme/3'' then Some (demo_page\<lparr>location_div := None\<rparr>)
      else None)"

definition link_of :: "string \<Rightarrow> link_record" where
  "link_of u = \<lparr>link_desc = Some u, link_apply = Some (u @ ''/apply'')\<rparr>"





section \<open>Facts about the string primitives\<close>

lemma split_char_not_Nil: "split_char sep s \<noteq> []"
  by (induction s) (auto split: list.splits)

lemma length_split_char: "length (split_char sep s) = Suc (length (filter (\<lambda>c. c = sep) s))"
  by (induction s) (auto split: list.splits simp: split_char_not_Nil)

lemma split_char_many: "1 < length (split_char sep s) \<longleftrightarrow> sep \<in> set s"
  by (simp add: length_split_char filter_empty_conv)

lemma str_in_same_length: "length t = length sub \<Longrightarrow> str_in sub t \<longleftrightarrow> t = sub"
proof (cases t)
  case Nil
  then show "length t = length sub \<Longrightarrow> ?thesis" by auto
next
  case (Cons c cs)
  have short: "\<And>u. length u < length sub \<Longrightarrow> \<not> str_in sub u"
  proof -
    fix u :: string
    show "length u < length sub \<Longrightarrow> \<not> str_in sub u"
      by (induction u) auto
  qed
  assume len: "length t = length sub"
  with Cons have "\<not> str_in sub cs" by (intro short) simp
  with Cons len show ?thesis by auto
qed

lemma process_links_filter:
  "process_links url links = map process_link (filter (validate_link url) links)"
  by (induction links) auto

lemma validate_link_iff:
  "validate_link url link \<longleftrightarrow>
     link \<noteq> [] \<and> length url < length link \<and> take (length url) link = url \<and>
     \<not> str_in ''/?q='' link \<and>
     CHR ''/'' \<in> set (str_replace ''https://jobs.lever.co/'' [] link)"
  unfolding validate_link_def using split_char_many[of "CHR ''/''"] by (auto simp: str_in_same_length)

lemma take_append_short: "n \<le> length xs \<Longrightarrow> take n (xs @ ys) = take n xs"
  by simp

lemma drop_append_short: "n \<le> length xs \<Longrightarrow> drop n (xs @ ys) = drop n xs @ ys"
  by simp

lemma take_eq_imp_le:
  assumes "take (length ys) xs = ys"
  shows "length ys \<le> length xs"
proof -
  have "length (take (length ys) xs) = length ys" using assms by simp
  then show ?thesis by simp
qed

lemma str_in_snoc:
  assumes "sub \<noteq> []" "last sub \<noteq> c"
  shows "str_in sub (s @ [c]) = str_in sub s"
proof (induction s)
  case Nil
  from assms show ?case by (cases sub) (auto split: if_splits)
next
  case (Cons x s)
  have "take (length sub) (x # s @ [c]) = sub \<longleftrightarrow> take (length sub) (x # s) = sub"
  proof (cases "length sub \<le> length (x # s)")
    case True
    then show ?thesis using take_append_short[of "length sub" "x # s" "[c]"] by simp
  next
    case False
    then have big: "take (length sub) ((x # s) @ [c]) = (x # s) @ [c]" by simp
    have "(x # s) @ [c] \<noteq> sub"
    proof
      assume e: "(x # s) @ [c] = sub"
      have "last sub = c" unfolding e[symmetric] by (rule last_snoc)
      with assms(2) show False by simp
    qed
    moreover have "take (length sub) (x # s) \<noteq> sub"
    proof
      assume "take (length sub) (x # s) = sub"
      then have "length sub \<le> length (x # s)" by (rule take_eq_imp_le)
      with False show False by simp
    qed
    ultimately show ?thesis using big by simp
  qed
  with Cons show ?case by simp
qed

lemma str_in_append_other:
  "sub \<noteq> [] \<Longrightarrow> last sub \<notin> set t \<Longrightarrow> str_in sub (s @ t) = str_in sub s"
proof (induction t arbitrary: s)
  case Nil
  then show ?case by simp
next
  case (Cons c t)
  have "str_in sub (s @ c # t) = str_in sub ((s @ [c]) @ t)" by simp
  also have "\<dots> = str_in sub (s @ [c])" using Cons.IH[of "s @ [c]"] Cons.prems by simp
  also have "\<dots> = str_in sub s" using Cons.prems by (intro str_in_snoc) auto
  finally show ?case by simp
qed

lemma str_replace_absent:
  "old \<noteq> [] \<Longrightarrow> last old \<notin> set v \<Longrightarrow> str_replace old new v = v"
proof (induction v)
  case Nil
  then show ?case by simp
next
  case (Cons c v)
  have "take (length old) (c # v) \<noteq> old"
  proof
    assume eq: "take (length old) (c # v) = old"
    have "last old \<in> set old" using Cons.prems(1) by simp
    then have "last old \<in> set (take (length old) (c # v))" using eq by simp
    then have "last old \<in> set (c # v)" by (rule in_set_takeD)
    with Cons.prems(2) show False by simp
  qed
  with Cons show ?case by simp
qed

lemma take_reaching_into:
  assumes "take (length old) (s @ v) = old" "length s < length old"
  shows "last old \<in> set v"
proof -
  define w where "w = take (length old - length s) v"
  have eq: "old = s @ w" using assms by (simp add: w_def)
  have "w \<noteq> []" using eq assms(2) by auto
  then have "last old = last w" using eq by simp
  also have "\<dots> \<in> set w" using \<open>w \<noteq> []\<close> by simp
  finally show ?thesis unfolding w_def by (rule in_set_takeD)
qed

lemma str_replace_append_other:
  "old \<noteq> [] \<Longrightarrow> last old \<notin> set v \<Longrightarrow>
     str_replace old new (s @ v) = str_replace old new s @ v"
proof (induction old new s rule: str_replace.induct)
  case (1 old new)
  then show ?case by (simp add: str_replace_absent)
next
  case (2 old new c cs)
  note ne = "2.prems"(1) and nv = "2.prems"(2)
  show ?case
  proof (cases "take (length old) (c # cs) = old")
    case True
    have le: "length old \<le> length (c # cs)" using True by (rule take_eq_imp_le)
    have tk: "take (length old) (c # cs @ v) = old"
      using take_append_short[OF le, of v] True by simp
    have dr: "drop (length old) (c # cs @ v) = drop (length old) (c # cs) @ v"
      using drop_append_short[OF le, of v] by simp
    have ih: "str_replace old new (drop (length old) (c # cs) @ v)
                = str_replace old new (drop (length old) (c # cs)) @ v"
      using "2.IH"(2)[OF ne True ne nv] .
    have "str_replace old new ((c # cs) @ v)
            = new @ str_replace old new (drop (length old) (c # cs @ v))"
      using ne tk by simp
    also have "\<dots> = new @ str_replace old new (drop (length old) (c # cs)) @ v"
      using dr ih by simp
    also have "\<dots> = str_replace old new (c # cs) @ v"
      using ne True by simp
    finally show ?thesis .
  next
    case False
    have nt: "take (length old) (c # cs @ v) \<noteq> old"
    proof
      assume eq: "take (length old) (c # cs @ v) = old"
      show False
      proof (cases "length (c # cs) < length old")
        case True
        have "last old \<in> set v"
          using take_reaching_into[of old "c # cs" v] eq True by simp
        with nv show False by simp
      next
        case False
        then have "length old \<le> length (c # cs)" by simp
        from take_append_short[OF this, of v] eq
        have "take (length old) (c # cs) = old" by simp
        with \<open>take (length old) (c # cs) \<noteq> old\<close> show False by simp
      qed
    qed
    have ih: "str_replace old new (cs @ v) = str_replace old new cs @ v"
      using "2.IH"(3)[OF ne False ne nv] .
    have "str_replace old new ((c # cs) @ v) = c # str_replace old new (cs @ v)"
      using ne nt by simp
    also have "\<dots> = str_replace old new (c # cs) @ v"
      using ne False ih by simp
    finally show ?thesis .
  qed
qed

section \<open>Link processor: validation\<close>

text \<open>
  Claim C6. \<open>validate_link url link\<close> holds exactly when the link is non-empty, strictly
  longer than the domain string, starts with the domain, does not contain \<open>/?q=\<close>,
  and, once the string \<open>https://jobs.lever.co/\<close> has been taken out of it (by
  \<open>replace\<close>, wherever it stands), splits on \<open>/\<close> into more than one segment.
  \<open>process_links\<close> produces no record for a link that fails validation: it returns
  the empty list on such a link alone, and on any list its result is the one it gives
  on the valid links only, one record for each.
\<close>

theorem validate_link_characterisation:
  "(validate_link url link \<longleftrightarrow>
      link \<noteq> [] \<and> length url < length link \<and> take (length url) link = url \<and>
      \<not> str_in ''/?q='' link \<and>
      1 < length (split_char CHR ''/'' (str_replace ''https://jobs.lever.co/'' [] link)))
   \<and> (\<not> validate_link url link \<longrightarrow> process_links url [link] = [])
   \<and> process_links url links = process_links url (filter (validate_link url) links)
   \<and> length (process_links url links) = length (filter (validate_link url) links)"
proof -
  have a: "validate_link url link \<longleftrightarrow>
      link \<noteq> [] \<and> length url < length link \<and> take (length url) link = url \<and>
      \<not> str_in ''/?q='' link \<and>
      1 < length (split_char CHR ''/'' (str_replace ''https://jobs.lever.co/'' [] link))"
    unfolding validate_link_def by (simp add: str_in_same_length)
  have b: "\<not> validate_link url link \<longrightarrow> process_links url [link] = []" by simp
  have c: "process_links url links = process_links url (filter (validate_link url) links)"
    by (simp add: process_links_filter)
  have d: "length (process_links url links) = length (filter (validate_link url) links)"
    by (simp add: process_links_filter)
  from a b c d show ?thesis by blast
qed

theorem validate_link_characterisation_witness:
  "validate_link ''lever.co'' ''lever.co/acme/123''
   \<and> \<not> validate_link ''lever.co'' ''lever.co/?q=data''
   \<and> process_links ''lever.co'' [''lever.co/?q=data''] = []
   \<and> length (process_links ''lever.co'' [''lever.co/?q=data'', ''lever.co/acme/123'']) = 1"
proof -
  note t = validate_link_characterisation
    [of "''lever.co''" "''lever.co/?q=data''" "[''lever.co/?q=data'', ''lever.co/acme/123'']"]
  have v1: "validate_link ''lever.co'' ''lever.co/acme/123''"
    using validate_link_characterisation
      [of "''lever.co''" "''lever.co/acme/123''" "[]"] by simp
  have v2: "\<not> validate_link ''lever.co'' ''lever.co/?q=data''"
    using t by simp
  from t v1 v2 show ?thesis by simp
qed

text \<open>
  Claim C10. A link passes \<open>validate_link\<close> only when its first \<open>length url\<close>
  characters are the domain string itself. For the configured domain \<open>lever.co\<close>
  every link that does not start with \<open>lever.co\<close>, in particular every link that
  starts with the scheme \<open>https://\<close>, fails validation and gives no record, although
  the segment count is taken after \<open>https://jobs.lever.co/\<close> has been stripped:
  \<open>https://jobs.lever.co/acme/123\<close> is stripped to \<open>acme/123\<close>, which has two
  segments, and is rejected all the same.
\<close>

theorem validate_link_domain_prefix:
  "(validate_link url link \<longrightarrow> take (length url) link = url)
   \<and> (take (length lever_url) link \<noteq> lever_url \<longrightarrow>
        \<not> validate_link lever_url link \<and> process_links lever_url [link] = [])
   \<and> \<not> validate_link lever_url (''https://'' @ rest)
   \<and> process_links lever_url [''https://'' @ rest] = []
   \<and> str_replace ''https://jobs.lever.co/'' [] ''https://jobs.lever.co/acme/123'' = ''acme/123''
   \<and> 1 < length (split_char CHR ''/''
            (str_replace ''https://jobs.lever.co/'' [] ''https://jobs.lever.co/acme/123''))
   \<and> \<not> validate_link lever_url ''https://jobs.lever.co/acme/123''"
proof -
  have a: "validate_link url link \<longrightarrow> take (length url) link = url" for url link
    unfolding validate_link_def by (simp add: str_in_same_length)
  have b: "take (length lever_url) link \<noteq> lever_url \<longrightarrow> \<not> validate_link lever_url link" for link
    using a[of lever_url link] by blast
  have c: "\<not> validate_link lever_url (''https://'' @ rest)" for rest
    using b[of "''https://'' @ rest"] by (simp add: lever_url_def)
  have d: "str_replace ''https://jobs.lever.co/'' [] ''https://jobs.lever.co/acme/123'' = ''acme/123''"
    by simp
  have e: "1 < length (split_char CHR ''/'' ''acme/123'')" by simp
  from a b c[of rest] c[of "''jobs.lever.co/acme/123''"] d e show ?thesis by simp
qed

theorem validate_link_domain_prefix_witness:
  "take (length lever_url) ''http://jobs.lever.co/acme/123'' \<noteq> lever_url
   \<and> \<not> validate_link lever_url ''http://jobs.lever.co/acme/123''
   \<and> process_links lever_url [''http://jobs.lever.co/acme/123''] = []
   \<and> validate_link lever_url ''lever.co/acme/123''
   \<and> take (length lever_url) ''lever.co/acme/123'' = lever_url"
proof -
  have v: "validate_link lever_url ''lever.co/acme/123''"
    by (simp add: validate_link_def lever_url_def)
  have n: "take (length lever_url) ''http://jobs.lever.co/acme/123'' \<noteq> lever_url"
    by (simp add: lever_url_def)
  from validate_link_domain_prefix[where url = lever_url and link = "''lever.co/acme/123''"]
    validate_link_domain_prefix[where link = "''http://jobs.lever.co/acme/123''"] v n
  show ?thesis by blast
qed

section \<open>Link processor: the description URL of an application link\<close>

text \<open>
  Claim C2 says that for a link whose last segment is \<open>apply\<close> (compared without
  regard to case) the description URL is the link with that last segment removed.
  The code computes \<open>iLink.replace('apply', '')\<close>, which deletes every lower-case
  \<open>apply\<close> in the link and no upper-case one. Evaluated on two links that pass
  validation: in \<open>lever.co/applydigital/123/apply\<close> the company segment loses its
  \<open>apply\<close> too, and in \<open>lever.co/acme/123/APPLY\<close> nothing is removed, so the
  description URL is the application URL.
\<close>

theorem process_links_apply_segment_evaluated:
  "process_links lever_url [''lever.co/applydigital/123/apply'']
     = [\<lparr>link_desc = Some ''lever.co/digital/123/'',
         link_apply = Some ''lever.co/applydigital/123/apply''\<rparr>]
   \<and> process_links lever_url [''lever.co/acme/123/APPLY'']
     = [\<lparr>link_desc = Some ''lever.co/acme/123/APPLY'',
         link_apply = Some ''lever.co/acme/123/APPLY''\<rparr>]"
  by (simp add: lever_url_def validate_link_def process_link_def last_segment_is_apply_def
      py_index_def str_lower_def lower_char_def)

lemma check_if_exists_in_array_iff: "check_if_exists_in_array v arr \<longleftrightarrow> v \<in> set arr"
  by (simp add: check_if_exists_in_array_def filter_empty_conv)

lemma validate_location_in_usa_Cons:
  "validate_location_in_usa (t # ts) F A C N X =
     (case spec_token_rule t F A C N X of
        Some b \<Rightarrow> Some b
      | None \<Rightarrow> validate_location_in_usa ts F A C N X)"
  by (simp add: spec_token_rule_def check_if_exists_in_array_iff)

lemma validate_location_in_usa_find:
  "validate_location_in_usa locs F A C N X =
     (case find (\<lambda>t. spec_token_rule t F A C N X \<noteq> None) locs of
        None \<Rightarrow> None
      | Some t \<Rightarrow> spec_token_rule t F A C N X)"
proof (induction locs)
  case Nil
  show ?case by simp
next
  case (Cons t ts)
  show ?case
  proof (cases "spec_token_rule t F A C N X")
    case None
    then show ?thesis
      using Cons by (simp only: validate_location_in_usa_Cons find.simps) simp
  next
    case (Some b)
    then show ?thesis
      by (simp only: validate_location_in_usa_Cons find.simps) simp
  qed
qed

lemma job_records_gate:
  assumes "get_job_desc_page_source (fetch w) j = Some src"
    and "parse_location_info (set_order w) src = Some locs"
    and "is_usa w locs \<noteq> Some True"
  shows "job_records w j = []"
  using assms by (simp add: job_records_def)

section \<open>Location classifier\<close>

text \<open>
  Claim C1. \<open>validate_location_in_usa\<close> goes through the tokens in the order it
  meets them and returns at the first token that some rule matches, with the rules
  tried per token in the order: two letters and an abbreviated state give true, else a
  foreign country gives false, else a full state name gives true, else a US city gives
  true, else a non-US city gives false; with no match in any table the result is
  \<open>None\<close>. So \<open>ca\<close> gives true when the abbreviated states hold it,
  \<open>germany\<close> gives false when the foreign countries hold it, and \<open>remote\<close>
  gives \<open>None\<close> when no table holds it. The caller \<open>save_job_info\<close> keeps
  a posting only on the answer true: any other answer adds no record.
\<close>

theorem classify_first_match:
  "validate_location_in_usa locs F A C N X =
     (case find (\<lambda>t. spec_token_rule t F A C N X \<noteq> None) locs of
        None \<Rightarrow> None
      | Some t \<Rightarrow> spec_token_rule t F A C N X)
   \<and> (''ca'' \<in> set A \<longrightarrow> validate_location_in_usa [''ca''] F A C N X = Some True)
   \<and> (''germany'' \<in> set X \<longrightarrow> validate_location_in_usa [''germany''] F A C N X = Some False)
   \<and> (''remote'' \<notin> set F \<union> set C \<union> set N \<union> set X \<longrightarrow>
        validate_location_in_usa [''remote''] F A C N X = None)
   \<and> (get_job_desc_page_source (fetch w) j = Some src \<longrightarrow>
        parse_location_info (set_order w) src = Some locs \<longrightarrow>
        is_usa w locs \<noteq> Some True \<longrightarrow> job_records w j = [])"
proof -
  have a: "''ca'' \<in> set A \<longrightarrow> validate_location_in_usa [''ca''] F A C N X = Some True"
    by (simp add: check_if_exists_in_array_iff)
  have b: "''germany'' \<in> set X \<longrightarrow> validate_location_in_usa [''germany''] F A C N X = Some False"
    by (simp add: check_if_exists_in_array_iff)
  have c: "''remote'' \<notin> set F \<union> set C \<union> set N \<union> set X \<longrightarrow>
        validate_location_in_usa [''remote''] F A C N X = None"
    by (simp add: check_if_exists_in_array_iff)
  from validate_location_in_usa_find[of locs F A C N X] a b c job_records_gate[of w j src locs]
  show ?thesis by blast
qed

section \<open>Job record store\<close>

text \<open>
  Claim C4. \<open>save_job_info\<close> writes to the destination exactly when the batch holds
  more than one record; zero or one record leave it as it is. When it writes, a
  destination that does not exist is created with the header row followed by the rows;
  when the destination exists, creating it fails with \<open>FileExistsError\<close> and the
  rows are appended after the old content, with no header.
\<close>

theorem write_job_info_threshold:
  "(\<exists>dest'. write_job_info job_info dest = Inr dest' \<and> (dest' \<noteq> dest \<longleftrightarrow> 1 < length job_info))
   \<and> (length job_info \<le> 1 \<longrightarrow> write_job_info job_info dest = Inr dest)
   \<and> (1 < length job_info \<longrightarrow>
        write_job_info job_info None = Inr (Some (Header # map Row job_info)))
   \<and> (1 < length job_info \<longrightarrow>
        to_csv job_info Exclusive True (Some old) = Inl FileExistsError
        \<and> write_job_info job_info (Some old) = Inr (Some (old @ map Row job_info)))
   \<and> save_job_info w jobs dest = write_job_info (collect_job_info w [] jobs) dest"
proof -
  have a: "\<exists>dest'. write_job_info job_info dest = Inr dest' \<and> (dest' \<noteq> dest \<longleftrightarrow> 1 < length job_info)"
    by (cases dest) (auto simp: write_job_info_def to_csv_def)
  have b: "length job_info \<le> 1 \<longrightarrow> write_job_info job_info dest = Inr dest"
    by (simp add: write_job_info_def)
  have c: "1 < length job_info \<longrightarrow>
        write_job_info job_info None = Inr (Some (Header # map Row job_info))"
    by (simp add: write_job_info_def to_csv_def)
  have d: "1 < length job_info \<longrightarrow>
        to_csv job_info Exclusive True (Some old) = Inl FileExistsError
        \<and> write_job_info job_info (Some old) = Inr (Some (old @ map Row job_info))"
    by (simp add: write_job_info_def to_csv_def)
  have e: "save_job_info w jobs dest = write_job_info (collect_job_info w [] jobs) dest"
    by (simp add: save_job_info_def)
  from a b c d e show ?thesis by blast
qed


theorem classify_first_match_witness:
  "validate_location_in_usa [''ca''] [''texas''] [''ca'', ''tx''] [''austin''] [''berlin'']
       [''germany''] = Some True
   \<and> validate_location_in_usa [''germany''] [''texas''] [''ca'', ''tx''] [''austin'']
       [''berlin''] [''germany''] = Some False
   \<and> validate_location_in_usa [''remote''] [''texas''] [''ca'', ''tx''] [''austin'']
       [''berlin''] [''germany''] = None
   \<and> job_records demo_world \<lparr>link_desc = Some ''lever.co/acme/1'',
        link_apply = Some ''lever.co/acme/1/apply''\<rparr> = []"
proof -
  let ?j = "\<lparr>link_desc = Some ''lever.co/acme/1'', link_apply = Some ''lever.co/acme/1/apply''\<rparr>"
  let ?src = "\<lparr>title_tag = None, location_div = Some ''Berlin, Germany'',
                department_div = None, commitment_div = None,
                workplaceTypes_div = None, sections = [],
                salary_range_div = None, closing_description_div = None\<rparr>"
  have f: "get_job_desc_page_source (fetch demo_world) ?j = Some ?src"
    by (simp add: get_job_desc_page_source_def demo_world_def)
  have p: "parse_location_info (set_order demo_world) ?src = Some [''berlin'', ''germany'']"
    by (simp add: parse_location_info_def demo_world_def text_of_def str_lower_def lower_char_def)
  have u: "is_usa demo_world [''berlin'', ''germany''] \<noteq> Some True"
    by (simp add: is_usa_def demo_world_def check_if_exists_in_array_def)
  note t = classify_first_match
    [where locs = "[''remote'', ''berlin'', ''tx'']" and F = "[''texas'']"
       and A = "[''ca'', ''tx'']" and C = "[''austin'']" and N = "[''berlin'']"
       and X = "[''germany'']"]
  note t' = classify_first_match
    [where locs = "[''berlin'', ''germany'']" and w = demo_world and j = ?j and src = ?src]
  have g: "job_records demo_world ?j = []" using t' f p u by blast
  have a: "validate_location_in_usa [''ca''] [''texas''] [''ca'', ''tx''] [''austin''] [''berlin'']
       [''germany''] = Some True"
    using t[THEN conjunct2, THEN conjunct1] by simp
  have b: "validate_location_in_usa [''germany''] [''texas''] [''ca'', ''tx''] [''austin'']
       [''berlin''] [''germany''] = Some False"
    using t[THEN conjunct2, THEN conjunct2, THEN conjunct1] by simp
  have c: "validate_location_in_usa [''remote''] [''texas''] [''ca'', ''tx''] [''austin'']
       [''berlin''] [''germany''] = None"
    using t[THEN conjunct2, THEN conjunct2, THEN conjunct2, THEN conjunct1] by simp
  from a b c g show ?thesis by blast
qed

theorem write_job_info_threshold_witness:
  "write_job_info [demo_posting ''a''] None = Inr None
   \<and> write_job_info [demo_posting ''a'', demo_posting ''b''] None
       = Inr (Some [Header, Row (demo_posting ''a''), Row (demo_posting ''b'')])
   \<and> write_job_info [demo_posting ''a'', demo_posting ''b''] (Some [Header, Row (demo_posting ''c'')])
       = Inr (Some [Header, Row (demo_posting ''c''), Row (demo_posting ''a''),
                    Row (demo_posting ''b'')])"
proof -
  have one: "length [demo_posting ''a''] \<le> 1" by simp
  have two: "1 < length [demo_posting ''a'', demo_posting ''b'']" by simp
  from write_job_info_threshold[of "[demo_posting ''a'']" None] one
  have a: "write_job_info [demo_posting ''a''] None = Inr None" by blast
  from write_job_info_threshold
    [of "[demo_posting ''a'', demo_posting ''b'']" None "[Header, Row (demo_posting ''c'')]"] two
  show ?thesis using a by simp
qed

section \<open>Posting parser: what each step assigns\<close>

lemma py_index_first: "xs \<noteq> [] \<Longrightarrow> py_index xs 0 = Inr (hd xs)"
  by (cases xs) (simp_all add: py_index_def)

lemma py_index_last: "xs \<noteq> [] \<Longrightarrow> py_index xs (- 1) = Inr (last xs)"
  by (simp add: py_index_def Let_def last_conv_nth nat_diff_distrib' int_ops)

lemma py_index_nat:
  "py_index xs (int n) = (if n < length xs then Inr (xs ! n) else Inl IndexError)"
  by (simp add: py_index_def)

lemma parse_using_title_tag_eq:
  "parse_using_title_tag job =
     (case title_tag (job_page_source job) of
        None \<Rightarrow> job
      | Some t \<Rightarrow>
          job\<lparr>company := Some (str_strip (hd (split_char CHR ''-'' t))),
              title := Some (str_strip (last (split_char CHR ''-'' t))),
              location := (if str_in ''remote'' (str_lower t) then Some ''Remote''
                           else location job)\<rparr>)"
  by (simp add: parse_using_title_tag_def py_index_first py_index_last split_char_not_Nil
      Let_def split: option.split)

lemma parse_location_eq:
  "parse_location job =
     job\<lparr>location := (if location job = None
                       then map_option (rstrip_char CHR ''/'') (location_div (job_page_source job))
                       else location job)\<rparr>"
  by (simp add: parse_location_def text_of_def split: option.split)

lemma parse_team_eq:
  "parse_team job =
     job\<lparr>team := map_option (rstrip_char CHR ''/'') (department_div (job_page_source job))\<rparr>"
  by (simp add: parse_team_def text_of_def split: option.split)

lemma parse_hours_eq:
  "parse_hours job =
     job\<lparr>hours := map_option (rstrip_char CHR ''/'') (commitment_div (job_page_source job))\<rparr>"
  by (simp add: parse_hours_def text_of_def split: option.split)

lemma parse_wfh_eq:
  "parse_wfh job =
     job\<lparr>wfh := map_option (rstrip_char CHR ''/'') (workplaceTypes_div (job_page_source job))\<rparr>"
  by (simp add: parse_wfh_def text_of_def split: option.split)

lemma parse_desc_and_qual_eq:
  "parse_desc_and_qual job =
     job\<lparr>desc := section_text (sections (job_page_source job)) 1,
         qual := section_text (sections (job_page_source job)) 2\<rparr>"
  using py_index_nat[of "sections (job_page_source job)" 1]
        py_index_nat[of "sections (job_page_source job)" 2]
  by (simp add: parse_desc_and_qual_def Let_def section_text_def)

lemma parse_salary_eq:
  "max_salary job = None \<Longrightarrow> min_salary job = None \<Longrightarrow>
   parse_salary job =
     job\<lparr>max_salary := map_option fst (salary_pair (job_page_source job)),
         min_salary := map_option snd (salary_pair (job_page_source job))\<rparr>"
  using py_index_nat[of "rev (sort xs)" 0 for xs :: "nat list"]
        py_index_nat[of "rev (sort xs)" 1 for xs :: "nat list"]
  by (auto simp: parse_salary_def salary_pair_def Let_def split: option.split sum.split)

lemma export_posting_info_eq:
  "export_posting_info (init_lever_job d src a b) =
     \<lparr>rec_company = map_option (\<lambda>t. str_strip (hd (split_char CHR ''-'' t))) (title_tag src),
      rec_title = map_option (\<lambda>t. str_strip (last (split_char CHR ''-'' t))) (title_tag src),
      rec_team = map_option (rstrip_char CHR ''/'') (department_div src),
      rec_location = (case title_location src of
                        Some l \<Rightarrow> Some l
                      | None \<Rightarrow> map_option (rstrip_char CHR ''/'') (location_div src)),
      rec_hours = map_option (rstrip_char CHR ''/'') (commitment_div src),
      rec_wfh = map_option (rstrip_char CHR ''/'') (workplaceTypes_div src),
      rec_min_salary = map_option snd (salary_pair src),
      rec_max_salary = map_option fst (salary_pair src),
      rec_desc = section_text (sections src) 1,
      rec_qual = section_text (sections src) 2,
      rec_posting = a, rec_apply = b, rec_scraped = d, rec_applied = False\<rparr>"
  by (simp add: export_posting_info_def parse_all_def record_of_details_def init_lever_job_def
      parse_using_title_tag_eq parse_location_eq parse_team_eq parse_hours_eq parse_wfh_eq
      parse_desc_and_qual_eq parse_salary_eq title_location_def split: option.split)

section \<open>Posting parser: the title tag decides the location first\<close>

text \<open>
  Claim C8. When the page has a title whose text contains \<open>remote\<close> in any case,
  \<open>_parse_using_title_tag\<close> sets the location to \<open>Remote\<close> and the exported
  record carries \<open>Remote\<close>, whatever the location region of the page holds.
  \<open>_parse_location\<close> leaves a job whose location is already set exactly as it is;
  it reads the location region only when the location is still unset.
\<close>

theorem remote_title_keeps_location:
  "(title_tag src = Some t \<longrightarrow> str_in ''remote'' (str_lower t) \<longrightarrow>
      location (parse_using_title_tag (init_lever_job d src a b)) = Some ''Remote''
      \<and> rec_location (export_posting_info (init_lever_job d src a b)) = Some ''Remote'')
   \<and> (location job \<noteq> None \<longrightarrow> parse_location job = job)
   \<and> (location job = None \<longrightarrow>
        location (parse_location job)
          = map_option (rstrip_char CHR ''/'') (location_div (job_page_source job)))"
proof -
  have a1: "title_tag src = Some t \<longrightarrow> str_in ''remote'' (str_lower t) \<longrightarrow>
      location (parse_using_title_tag (init_lever_job d src a b)) = Some ''Remote''"
    by (simp add: parse_using_title_tag_eq init_lever_job_def)
  have a2: "title_tag src = Some t \<longrightarrow> str_in ''remote'' (str_lower t) \<longrightarrow>
      rec_location (export_posting_info (init_lever_job d src a b)) = Some ''Remote''"
    by (simp add: export_posting_info_eq title_location_def)
  from a1 a2 have a: "title_tag src = Some t \<longrightarrow> str_in ''remote'' (str_lower t) \<longrightarrow>
      location (parse_using_title_tag (init_lever_job d src a b)) = Some ''Remote''
      \<and> rec_location (export_posting_info (init_lever_job d src a b)) = Some ''Remote''"
    by blast
  have b: "location job \<noteq> None \<longrightarrow> parse_location job = job"
    by (simp add: parse_location_def)
  have c: "location job = None \<longrightarrow>
        location (parse_location job)
          = map_option (rstrip_char CHR ''/'') (location_div (job_page_source job))"
    by (simp add: parse_location_eq)
  from a b c show ?thesis by blast
qed

theorem remote_title_keeps_location_witness:
  "str_in ''remote'' (str_lower ''Acme - Data Scientist (Remote)'')
   \<and> location_div demo_page = Some ''Austin, TX /''
   \<and> rec_location (export_posting_info
        (init_lever_job ''11/04/2026'' demo_page (Some ''lever.co/acme/1'')
           (Some ''lever.co/acme/1/apply''))) = Some ''Remote''"
proof -
  have r: "str_in ''remote'' (str_lower ''Acme - Data Scientist (Remote)'')"
    by (simp add: str_lower_def lower_char_def)
  have t: "title_tag demo_page = Some ''Acme - Data Scientist (Remote)''"
    by (simp add: demo_page_def)
  have l: "location_div demo_page = Some ''Austin, TX /''" by (simp add: demo_page_def)
  from remote_title_keeps_location
    [where src = demo_page and t = "''Acme - Data Scientist (Remote)''"
       and d = "''11/04/2026''" and a = "Some ''lever.co/acme/1''"
       and b = "Some ''lever.co/acme/1/apply''"] r t l
  show ?thesis by blast
qed

section \<open>Fault isolation\<close>

lemma collect_job_info_concat:
  "collect_job_info w job_info jobs = job_info @ concat (map (job_records w) jobs)"
  by (induction jobs arbitrary: job_info) simp_all

lemma job_records_fetch_failed:
  "get_job_desc_page_source (fetch w) j = None \<Longrightarrow> job_records w j = []"
  by (simp add: job_records_def)

lemma job_records_location_failed:
  "get_job_desc_page_source (fetch w) j = Some src \<Longrightarrow> location_div src = None \<Longrightarrow>
   job_records w j = []"
  by (simp add: job_records_def parse_location_info_def text_of_def)

lemma salary_pair_failed:
  "salary_text src = Some t \<Longrightarrow> clean_money_string t = Inl e \<Longrightarrow> salary_pair src = None"
  by (simp add: salary_pair_def)

lemma section_text_short: "length posting_info \<le> n \<Longrightarrow> section_text posting_info n = None"
  by (simp add: section_text_def)

lemma salary_text_frame:
  "salary_text (pg\<lparr>title_tag := v1\<rparr>) = salary_text pg"
  "salary_text (pg\<lparr>location_div := v2\<rparr>) = salary_text pg"
  "salary_text (pg\<lparr>department_div := v3\<rparr>) = salary_text pg"
  "salary_text (pg\<lparr>commitment_div := v4\<rparr>) = salary_text pg"
  "salary_text (pg\<lparr>workplaceTypes_div := v5\<rparr>) = salary_text pg"
  "salary_text (pg\<lparr>sections := v6\<rparr>) = salary_text pg"
  by (simp_all add: salary_text_def split: option.split)

lemma salary_pair_frame:
  "salary_pair (pg\<lparr>title_tag := v1\<rparr>) = salary_pair pg"
  "salary_pair (pg\<lparr>location_div := v2\<rparr>) = salary_pair pg"
  "salary_pair (pg\<lparr>department_div := v3\<rparr>) = salary_pair pg"
  "salary_pair (pg\<lparr>commitment_div := v4\<rparr>) = salary_pair pg"
  "salary_pair (pg\<lparr>workplaceTypes_div := v5\<rparr>) = salary_pair pg"
  "salary_pair (pg\<lparr>sections := v6\<rparr>) = salary_pair pg"
  by (simp_all add: salary_pair_def salary_text_frame)

lemma title_location_frame:
  "title_location (pg\<lparr>title_tag := None\<rparr>) = None"
  "title_location (pg\<lparr>location_div := v2\<rparr>) = title_location pg"
  "title_location (pg\<lparr>department_div := v3\<rparr>) = title_location pg"
  "title_location (pg\<lparr>commitment_div := v4\<rparr>) = title_location pg"
  "title_location (pg\<lparr>workplaceTypes_div := v5\<rparr>) = title_location pg"
  "title_location (pg\<lparr>sections := v6\<rparr>) = title_location pg"
  "title_location (pg\<lparr>salary_range_div := v7, closing_description_div := v8\<rparr>) = title_location pg"
  by (simp_all add: title_location_def)

text \<open>
  Claim C9. In \<open>save_job_info\<close> the records collected for a batch are the records
  of each posting taken alone, one after the other, so no posting decides whether another
  is processed. A posting whose fetch fails (and likewise one whose location region
  cannot be read) adds no record, and the batch gives what it gives without that
  posting. Inside \<open>export_posting_info\<close> every step runs: when the region one step
  reads is missing, the exported record is the record of the intact page with that
  step's fields absent and every other field as before (a missing title leaves the
  location to the location region, as the title step is the first to set it); with two
  content sections only, the description is extracted and the qualifications are
  absent; and when a salary token fails to parse, both salary fields are absent and the
  other fields are those of the same page with any other salary sections.
\<close>

theorem fault_isolation:
  "collect_job_info w job_info jobs = job_info @ concat (map (job_records w) jobs)
   \<and> (get_job_desc_page_source (fetch w) j = None \<longrightarrow>
        job_records w j = []
        \<and> collect_job_info w [] (before @ j # after) = collect_job_info w [] (before @ after))
   \<and> (get_job_desc_page_source (fetch w) j = Some src \<longrightarrow> location_div src = None \<longrightarrow>
        job_records w j = []
        \<and> collect_job_info w [] (before @ j # after) = collect_job_info w [] (before @ after))
   \<and> export_posting_info (init_lever_job d (pg\<lparr>title_tag := None\<rparr>) a b)
        = (export_posting_info (init_lever_job d pg a b))
            \<lparr>rec_company := None, rec_title := None,
             rec_location := map_option (rstrip_char CHR ''/'') (location_div pg)\<rparr>
   \<and> export_posting_info (init_lever_job d (pg\<lparr>location_div := None\<rparr>) a b)
        = (export_posting_info (init_lever_job d pg a b))\<lparr>rec_location := title_location pg\<rparr>
   \<and> export_posting_info (init_lever_job d (pg\<lparr>department_div := None\<rparr>) a b)
        = (export_posting_info (init_lever_job d pg a b))\<lparr>rec_team := None\<rparr>
   \<and> export_posting_info (init_lever_job d (pg\<lparr>commitment_div := None\<rparr>) a b)
        = (export_posting_info (init_lever_job d pg a b))\<lparr>rec_hours := None\<rparr>
   \<and> export_posting_info (init_lever_job d (pg\<lparr>workplaceTypes_div := None\<rparr>) a b)
        = (export_posting_info (init_lever_job d pg a b))\<lparr>rec_wfh := None\<rparr>
   \<and> export_posting_info (init_lever_job d (pg\<lparr>sections := []\<rparr>) a b)
        = (export_posting_info (init_lever_job d pg a b))\<lparr>rec_desc := None, rec_qual := None\<rparr>
   \<and> (length (sections pg) = 2 \<longrightarrow>
        rec_desc (export_posting_info (init_lever_job d pg a b))
          = Some (clean_desc_and_qual (sections pg ! 1))
        \<and> rec_qual (export_posting_info (init_lever_job d pg a b)) = None)
   \<and> (salary_text pg = Some t \<longrightarrow> clean_money_string t = Inl e \<longrightarrow>
        export_posting_info (init_lever_job d pg a b)
          = (export_posting_info
               (init_lever_job d (pg\<lparr>salary_range_div := x, closing_description_div := y\<rparr>) a b))
              \<lparr>rec_min_salary := None, rec_max_salary := None\<rparr>)"
proof -
  have c: "collect_job_info w [] (before @ j # after) = collect_job_info w [] (before @ after)"
    if "job_records w j = []"
    using that by (simp add: collect_job_info_concat)
  have p1: "get_job_desc_page_source (fetch w) j = None \<longrightarrow>
        job_records w j = []
        \<and> collect_job_info w [] (before @ j # after) = collect_job_info w [] (before @ after)"
    using c job_records_fetch_failed[of w j] by blast
  have p2: "get_job_desc_page_source (fetch w) j = Some src \<longrightarrow> location_div src = None \<longrightarrow>
        job_records w j = []
        \<and> collect_job_info w [] (before @ j # after) = collect_job_info w [] (before @ after)"
    using c job_records_location_failed[of w j src] by blast
  have s1: "export_posting_info (init_lever_job d (pg\<lparr>title_tag := None\<rparr>) a b)
        = (export_posting_info (init_lever_job d pg a b))
            \<lparr>rec_company := None, rec_title := None,
             rec_location := map_option (rstrip_char CHR ''/'') (location_div pg)\<rparr>"
    by (simp add: export_posting_info_eq title_location_frame salary_pair_frame
        split: option.split)
  have s2: "export_posting_info (init_lever_job d (pg\<lparr>location_div := None\<rparr>) a b)
        = (export_posting_info (init_lever_job d pg a b))\<lparr>rec_location := title_location pg\<rparr>"
    by (simp add: export_posting_info_eq title_location_frame salary_pair_frame
        split: option.split)
  have s3: "export_posting_info (init_lever_job d (pg\<lparr>department_div := None\<rparr>) a b)
        = (export_posting_info (init_lever_job d pg a b))\<lparr>rec_team := None\<rparr>"
    by (simp add: export_posting_info_eq title_location_frame salary_pair_frame
        split: option.split)
  have s4: "export_posting_info (init_lever_job d (pg\<lparr>commitment_div := None\<rparr>) a b)
        = (export_posting_info (init_lever_job d pg a b))\<lparr>rec_hours := None\<rparr>"
    by (simp add: export_posting_info_eq title_location_frame salary_pair_frame
        split: option.split)
  have s5: "export_posting_info (init_lever_job d (pg\<lparr>workplaceTypes_div := None\<rparr>) a b)
        = (export_posting_info (init_lever_job d pg a b))\<lparr>rec_wfh := None\<rparr>"
    by (simp add: export_posting_info_eq title_location_frame salary_pair_frame
        split: option.split)
  have s6: "export_posting_info (init_lever_job d (pg\<lparr>sections := []\<rparr>) a b)
        = (export_posting_info (init_lever_job d pg a b))\<lparr>rec_desc := None, rec_qual := None\<rparr>"
    by (simp add: export_posting_info_eq title_location_frame salary_pair_frame
        section_text_def split: option.split)
  have s7: "length (sections pg) = 2 \<longrightarrow>
        rec_desc (export_posting_info (init_lever_job d pg a b))
          = Some (clean_desc_and_qual (sections pg ! 1))
        \<and> rec_qual (export_posting_info (init_lever_job d pg a b)) = None"
    by (simp add: export_posting_info_eq section_text_def)
  have s8: "salary_text pg = Some t \<longrightarrow> clean_money_string t = Inl e \<longrightarrow>
        export_posting_info (init_lever_job d pg a b)
          = (export_posting_info
               (init_lever_job d (pg\<lparr>salary_range_div := x, closing_description_div := y\<rparr>) a b))
              \<lparr>rec_min_salary := None, rec_max_salary := None\<rparr>"
    by (simp add: export_posting_info_eq title_location_frame salary_pair_failed
        split: option.split)
  from collect_job_info_concat[of w job_info jobs] p1 p2 s1 s2 s3 s4 s5 s6 s7 s8
  show ?thesis by blast
qed

theorem fault_isolation_witness:
  "get_job_desc_page_source (fetch (demo_world\<lparr>fetch := fetch_demo\<rparr>)) (link_of ''lever.co/gone'') = None
   \<and> collect_job_info (demo_world\<lparr>fetch := fetch_demo\<rparr>) []
        [link_of ''lever.co/gone'', link_of ''lever.co/acme/2'']
      = collect_job_info (demo_world\<lparr>fetch := fetch_demo\<rparr>) [] [link_of ''lever.co/acme/2'']
   \<and> collect_job_info (demo_world\<lparr>fetch := fetch_demo\<rparr>) []
        [link_of ''lever.co/acme/3'', link_of ''lever.co/acme/2'']
      = collect_job_info (demo_world\<lparr>fetch := fetch_demo\<rparr>) [] [link_of ''lever.co/acme/2'']
   \<and> rec_qual (export_posting_info (init_lever_job ''11/04/2026'' demo_page None None)) = None
   \<and> rec_desc (export_posting_info (init_lever_job ''11/04/2026'' demo_page None None))
        = Some ''valid text bracketed ''
   \<and> clean_money_string ''$TBD'' = Inl ValueError
   \<and> rec_team (export_posting_info
        (init_lever_job ''11/04/2026'' (demo_page\<lparr>salary_range_div := Some ''$TBD''\<rparr>) None None))
      = Some ''Engineering ''"
proof -
  let ?w = "demo_world\<lparr>fetch := fetch_demo\<rparr>"
  let ?bad = "demo_page\<lparr>salary_range_div := Some ''$TBD''\<rparr>"
  have f1: "get_job_desc_page_source (fetch ?w) (link_of ''lever.co/gone'') = None"
    by (simp add: get_job_desc_page_source_def link_of_def fetch_demo_def)
  have f3: "get_job_desc_page_source (fetch ?w) (link_of ''lever.co/acme/3'')
              = Some (demo_page\<lparr>location_div := None\<rparr>)"
    by (simp add: get_job_desc_page_source_def link_of_def fetch_demo_def)
  have l3: "location_div (demo_page\<lparr>location_div := None\<rparr>) = None" by simp
  have n2: "length (sections demo_page) = 2" by (simp add: demo_page_def)
  have st: "salary_text ?bad = Some ''$TBD''" by (simp add: salary_text_def)
  have cm: "clean_money_string ''$TBD'' = Inl ValueError"
    by (simp add: clean_money_string_def money_tokens_def clean_token_def py_float_def
        str_strip_def py_whitespace_def)
  have d: "clean_desc_and_qual (sections demo_page ! 1) = ''valid text bracketed ''"
    by (simp add: demo_page_def clean_desc_and_qual_def raw_string_def clean_item_def)
  note t1 = fault_isolation
    [where w = ?w and j = "link_of ''lever.co/gone''" and before = "[]"
       and after = "[link_of ''lever.co/acme/2'']"]
  note t3 = fault_isolation
    [where w = ?w and j = "link_of ''lever.co/acme/3''" and before = "[]"
       and after = "[link_of ''lever.co/acme/2'']" and src = "demo_page\<lparr>location_div := None\<rparr>"]
  note t2 = fault_isolation
    [where pg = demo_page and d = "''11/04/2026''" and a = None and b = None]
  note t4 = fault_isolation
    [where pg = ?bad and d = "''11/04/2026''" and a = None and b = None and t = "''$TBD''"
       and e = ValueError and x = None and y = None]
  have c1: "collect_job_info ?w [] [link_of ''lever.co/gone'', link_of ''lever.co/acme/2'']
      = collect_job_info ?w [] [link_of ''lever.co/acme/2'']"
    using t1 f1 by simp
  have c3: "collect_job_info ?w [] [link_of ''lever.co/acme/3'', link_of ''lever.co/acme/2'']
      = collect_job_info ?w [] [link_of ''lever.co/acme/2'']"
    using t3 f3 l3 by simp
  have q: "rec_qual (export_posting_info (init_lever_job ''11/04/2026'' demo_page None None)) = None"
    using t2 n2 by blast
  have ds: "rec_desc (export_posting_info (init_lever_job ''11/04/2026'' demo_page None None))
        = Some ''valid text bracketed ''"
    using t2 n2 d by simp
  have e4: "export_posting_info (init_lever_job ''11/04/2026'' ?bad None None)
      = (export_posting_info
           (init_lever_job ''11/04/2026''
              (?bad\<lparr>salary_range_div := None, closing_description_div := None\<rparr>) None None))
          \<lparr>rec_min_salary := None, rec_max_salary := None\<rparr>"
    using t4 st cm by blast
  have tm: "rec_team (export_posting_info (init_lever_job ''11/04/2026'' ?bad None None))
      = Some ''Engineering ''"
    unfolding e4 by (simp add: export_posting_info_eq demo_page_def rstrip_char_def)
  from f1 c1 c3 q ds cm tm show ?thesis by blast
qed

section \<open>Posting parser: salary\<close>










section \<open>Posting parser: description and qualification text\<close>







end
